theory Spec2Isabelle
  imports Complex_Main
begin

section \<open>JavaScript values and regular expressions\<close>

text \<open>
  A request field may be missing (\<open>undefined\<close>), \<open>null\<close>, or carry a value of the type
  its controller documents (a string for texts, a number for identifiers).
\<close>

datatype 'a js = Undefined | Null | Val 'a

text \<open>A nullable column stores \<open>NULL\<close> for a field that is missing or \<open>null\<close>.\<close>

fun column :: "'a js \<Rightarrow> 'a option" where
  "column Undefined = None"
| "column Null = None"
| "column (Val v) = Some v"

text \<open>\<open>String(x)\<close>, as \<open>RegExp.prototype.test\<close> applies it to its argument.\<close>

fun toString :: "string js \<Rightarrow> string" where
  "toString Undefined = ''undefined''"
| "toString Null = ''null''"
| "toString (Val s) = s"

text \<open>
  The regular expressions of the helpers are matched with Brzozowski derivatives.
  A pattern anchored with \<open>^\<close> and \<open>$\<close> accepts exactly the strings of its language,
  so that \<open>regex.test(s)\<close> is \<open>test r s\<close>.
\<close>

datatype rx = Zero | One | Chr char | Cls "char \<Rightarrow> bool" | Alt rx rx | Seq rx rx | Star rx

fun nullable :: "rx \<Rightarrow> bool" where
  "nullable Zero = False"
| "nullable One = True"
| "nullable (Chr c) = False"
| "nullable (Cls p) = False"
| "nullable (Alt r s) = (nullable r \<or> nullable s)"
| "nullable (Seq r s) = (nullable r \<and> nullable s)"
| "nullable (Star r) = True"

fun alt :: "rx \<Rightarrow> rx \<Rightarrow> rx" where
  "alt Zero s = s"
| "alt r Zero = r"
| "alt r s = Alt r s"

fun seq :: "rx \<Rightarrow> rx \<Rightarrow> rx" where
  "seq Zero s = Zero"
| "seq One s = s"
| "seq r s = Seq r s"

fun deriv :: "char \<Rightarrow> rx \<Rightarrow> rx" where
  "deriv c Zero = Zero"
| "deriv c One = Zero"
| "deriv c (Chr d) = (if c = d then One else Zero)"
| "deriv c (Cls p) = (if p c then One else Zero)"
| "deriv c (Alt r s) = alt (deriv c r) (deriv c s)"
| "deriv c (Seq r s) =
     (if nullable r then alt (seq (deriv c r) s) (deriv c s) else seq (deriv c r) s)"
| "deriv c (Star r) = seq (deriv c r) (Star r)"

fun test :: "rx \<Rightarrow> string \<Rightarrow> bool" where
  "test r [] = nullable r"
| "test r (c # cs) = test (deriv c r) cs"

fun lit :: "string \<Rightarrow> rx" where
  "lit [] = One"
| "lit (c # cs) = Seq (Chr c) (lit cs)"

definition optional :: "rx \<Rightarrow> rx" where
  "optional r = Alt r One"

definition many1 :: "rx \<Rightarrow> rx" where
  "many1 r = Seq r (Star r)"

definition oneof :: "string \<Rightarrow> rx" where
  "oneof cs = Cls (\<lambda>c. c \<in> set cs)"

section \<open>Helpers\<close>

text \<open>
  \<open>isValidIp\<close>: the pattern
  \<^verbatim>\<open>/^(25[0-5]|2[0-4][0-9]|1[0-9]{2}|[1-9]?[0-9])(\.(25[0-5]|2[0-4][0-9]|1[0-9]{2}|[1-9]?[0-9])){3}$/\<close>.
\<close>

definition octet :: rx where
  "octet =
     Alt (Seq (lit ''25'') (oneof ''012345''))
    (Alt (Seq (Chr CHR ''2'') (Seq (oneof ''01234'') (oneof ''0123456789'')))
    (Alt (Seq (Chr CHR ''1'') (Seq (oneof ''0123456789'') (oneof ''0123456789'')))
         (Seq (optional (oneof ''123456789'')) (oneof ''0123456789''))))"

definition ip_regex :: rx where
  "ip_regex =
     Seq octet (Seq (Seq (Chr CHR ''.'') octet)
               (Seq (Seq (Chr CHR ''.'') octet) (Seq (Chr CHR ''.'') octet)))"

definition isValidIp :: "string js \<Rightarrow> bool" where
  "isValidIp ip = test ip_regex (toString ip)"

text \<open>
  \<open>urlVerification\<close>: the pattern \<^verbatim>\<open>/^https?:\/\/[\w\-]+(\.[\w\-]+)+[/#?]?.*$/\<close>;
  \<open>\w\<close> is a letter, a digit or the underscore, and the dot matches every
  character but a line terminator.
\<close>

definition word_or_dash :: rx where
  "word_or_dash =
     oneof ''abcdefghijklmnopqrstuvwxyzABCDEFGHIJKLMNOPQRSTUVWXYZ0123456789_-''"

definition any_char :: rx where
  "any_char = Cls (\<lambda>c. c \<noteq> CHR 0x0A \<and> c \<noteq> CHR 0x0D)"

definition url_regex :: rx where
  "url_regex =
     Seq (lit ''http'') (Seq (optional (Chr CHR ''s'')) (Seq (lit ''://'')
    (Seq (many1 word_or_dash) (Seq (many1 (Seq (Chr CHR ''.'') (many1 word_or_dash)))
    (Seq (optional (oneof ''/#?'')) (Star any_char))))))"

definition urlVerification :: "string \<Rightarrow> bool" where
  "urlVerification url = test url_regex url"

text \<open>
  \<open>generateShortLink\<close>. \<open>Math.random()\<close> is an oracle: \<open>random n\<close> is the value of
  its \<open>n\<close>-th call, a rational in \<open>[0, 1)\<close>, and the number of calls made so far is
  threaded through. \<open>charAt\<close> yields the empty string out of range.
\<close>

definition char :: string where
  "char = ''abcdefghijklmnopqrstuvwxyzABCDEFGHIJKLMNOPQRSTUWXYZ0123456789''"

definition charAt :: "string \<Rightarrow> int \<Rightarrow> string" where
  "charAt s i = (if 0 \<le> i \<and> i < int (length s) then [s ! nat i] else [])"

function generateShortLink_loop ::
  "(nat \<Rightarrow> rat) \<Rightarrow> nat \<Rightarrow> string \<Rightarrow> nat \<Rightarrow> string \<times> nat" where
  "generateShortLink_loop random i code calls =
     (if i < 4
      then let index = \<lfloor>random calls * of_nat (length char)\<rfloor>
           in generateShortLink_loop random (i + 1) (code @ charAt char index) (calls + 1)
      else (code, calls))"
  by pat_completeness auto
termination
  by (relation "measure (\<lambda>(random, i, code, calls). 4 - i)") auto

definition generateShortLink :: "(nat \<Rightarrow> rat) \<Rightarrow> nat \<Rightarrow> string \<times> nat" where
  "generateShortLink random calls = generateShortLink_loop random 0 [] calls"


section \<open>The store\<close>

text \<open>
  The three tables, as the models declare them. All three models have a column
  \<open>id_user\<close>, and the visits also one named \<open>id_links\<close>; the foreign keys carry their
  table's name here. Dates are points of a clock.
\<close>

record user =
  id_user :: int
  email :: string
  password :: string
  name :: string
  r_date :: nat
  b_date :: "nat option"
  role :: string

record link =
  id_links :: int
  original_link :: string
  short_link :: string
  registration_date_links :: nat
  links_id_user :: int

record visit =
  id_links_visited :: int
  visited_date :: nat
  so :: "string option"
  web_navigator :: "string option"
  ip :: "string option"
  country :: "string option"
  city :: "string option"
  visited_id_user :: int
  visited_id_links :: int

text \<open>The \<open>where\<close> clauses the controllers pass to \<open>findOne\<close>.\<close>

datatype links_where =
    ByOriginalAndUser string "int js"
  | ByShortLink string
  | ByIdLinks "int js"
  | ByIdLinksNumber rat

datatype users_where =
    ByEmail "string js"
  | ByIdUser "int js"
  | ByIdUserNumber rat
  | ByName string

text \<open>Every call on a model is recorded, oldest first.\<close>

datatype query =
    LinksFindOne links_where
  | LinksCreate string string int
  | LinksUpdate int string
  | LinksDestroy int
  | LinksFindAll string string
  | UsersFindOne users_where
  | UsersDestroy int
  | LinksVisitedCreate int int

text \<open>
  What the process can observe and change: the tables with their auto-increment
  counters, the calls made on the models, and how often \<open>Math.random()\<close> was called.
\<close>

record world =
  users :: "user list"
  links :: "link list"
  links_visited :: "visit list"
  next_id_links :: int
  next_id_links_visited :: int
  queries :: "query list"
  random_calls :: nat

text \<open>
  What the repository takes from outside: \<open>validator.isURL\<close>, \<open>Math.random\<close>, the
  clock behind \<open>DataTypes.NOW\<close>, \<open>jwt.verify\<close> with the configured secret (the error
  message on the left, the \<open>email\<close> of the payload on the right), \<open>Number\<close> on a path
  parameter (\<open>None\<close> is \<open>NaN\<close>), and how the database compares the column of a link
  that a request names with the text the request gives (\<open>None\<close> when it raises, as for
  a name that is no column).

  The models set no collation and no SQL mode, so two more things are the database's.
  Its collation decides when two texts are equal, in a \<open>where\<close> clause and in the unique
  index: \<open>collation\<close> gives the key of a text, and two texts are equal when their keys
  are (the identity compares character by character; the default collations of MySQL
  ignore the case of letters). And \<open>too_long n s\<close> is what the database makes of a text
  \<open>s\<close> that is longer than its column of width \<open>n\<close>: \<open>None\<close> when it refuses the row,
  the text it stores instead when it shortens it.
\<close>

record env =
  isURL :: "string \<Rightarrow> bool"
  random :: "nat \<Rightarrow> rat"
  now :: nat
  verify :: "string \<Rightarrow> string + string js"
  number :: "string \<Rightarrow> rat option"
  compare :: "string \<Rightarrow> string \<Rightarrow> (link \<Rightarrow> bool) option"
  collation :: "string \<Rightarrow> string"
  too_long :: "nat \<Rightarrow> string \<Rightarrow> string option"

text \<open>
  Errors a model call raises: sequelize refuses \<open>undefined\<close> in a \<open>where\<close> clause, the
  unique index \<open>idx_short_link\<close> refuses a second row with the same \<open>short_link\<close>, a
  foreign key refuses a row that references no row, and the database refuses a
  comparison on a name that is no column, or a text that is too long for its column.
\<close>

datatype db_error =
    InvalidWhereValue string
  | UniqueConstraintError
  | ForeignKeyConstraintError
  | DatabaseError string
  | DataTooLong

definition record_query :: "query \<Rightarrow> world \<Rightarrow> world" where
  "record_query q w = w\<lparr>queries := queries w @ [q]\<rparr>"

text \<open>Equality of two texts in the database.\<close>

definition same_text :: "env \<Rightarrow> string \<Rightarrow> string \<Rightarrow> bool" where
  "same_text e s t = (collation e s = collation e t)"

fun links_condition :: "env \<Rightarrow> links_where \<Rightarrow> db_error + (link \<Rightarrow> bool)" where
  "links_condition e (ByOriginalAndUser url Undefined) = Inl (InvalidWhereValue ''id_user'')"
| "links_condition e (ByOriginalAndUser url Null) = Inr (\<lambda>l. False)"
| "links_condition e (ByOriginalAndUser url (Val u)) =
     Inr (\<lambda>l. same_text e (original_link l) url \<and> links_id_user l = u)"
| "links_condition e (ByShortLink s) = Inr (\<lambda>l. same_text e (short_link l) s)"
| "links_condition e (ByIdLinks Undefined) = Inl (InvalidWhereValue ''id_links'')"
| "links_condition e (ByIdLinks Null) = Inr (\<lambda>l. False)"
| "links_condition e (ByIdLinks (Val i)) = Inr (\<lambda>l. id_links l = i)"
| "links_condition e (ByIdLinksNumber r) = Inr (\<lambda>l. of_int (id_links l) = r)"

fun users_condition :: "env \<Rightarrow> users_where \<Rightarrow> db_error + (user \<Rightarrow> bool)" where
  "users_condition e (ByEmail Undefined) = Inl (InvalidWhereValue ''email'')"
| "users_condition e (ByEmail Null) = Inr (\<lambda>u. False)"
| "users_condition e (ByEmail (Val a)) = Inr (\<lambda>u. same_text e (email u) a)"
| "users_condition e (ByIdUser Undefined) = Inl (InvalidWhereValue ''id_user'')"
| "users_condition e (ByIdUser Null) = Inr (\<lambda>u. False)"
| "users_condition e (ByIdUser (Val i)) = Inr (\<lambda>u. id_user u = i)"
| "users_condition e (ByIdUserNumber r) = Inr (\<lambda>u. of_int (id_user u) = r)"
| "users_condition e (ByName n) = Inr (\<lambda>u. same_text e (name u) n)"

definition LinksModel_findOne ::
  "env \<Rightarrow> links_where \<Rightarrow> world \<Rightarrow> (db_error + link option) \<times> world" where
  "LinksModel_findOne e wh w =
     (case links_condition e wh of
        Inl err \<Rightarrow> (Inl err, record_query (LinksFindOne wh) w)
      | Inr p \<Rightarrow> (Inr (find p (links w)), record_query (LinksFindOne wh) w))"

definition UsersModel_findOne ::
  "env \<Rightarrow> users_where \<Rightarrow> world \<Rightarrow> (db_error + user option) \<times> world" where
  "UsersModel_findOne e wh w =
     (case users_condition e wh of
        Inl err \<Rightarrow> (Inl err, record_query (UsersFindOne wh) w)
      | Inr p \<Rightarrow> (Inr (find p (users w)), record_query (UsersFindOne wh) w))"

text \<open>\<open>LinksModel.findAll({where: {[attribute]: data}})\<close>.\<close>

definition LinksModel_findAll ::
  "env \<Rightarrow> string \<Rightarrow> string \<Rightarrow> world \<Rightarrow> (db_error + link list) \<times> world" where
  "LinksModel_findAll e attribute data w =
     (case compare e attribute data of
        None \<Rightarrow> (Inl (DatabaseError attribute), record_query (LinksFindAll attribute data) w)
      | Some p \<Rightarrow> (Inr (filter p (links w)), record_query (LinksFindAll attribute data) w))"

text \<open>
  \<open>LinksModel.create\<close>: the row gets the next identifier and the current date; the
  unique index and the foreign key to \<open>users\<close> are checked by the store. The width of
  \<open>original_link\<close> is not part of the model.
\<close>

definition LinksModel_create ::
  "env \<Rightarrow> nat \<Rightarrow> string \<Rightarrow> string \<Rightarrow> int \<Rightarrow> world \<Rightarrow> (db_error + link) \<times> world" where
  "LinksModel_create e date original short owner w =
     (if list_ex (\<lambda>l. same_text e (short_link l) short) (links w)
      then (Inl UniqueConstraintError, record_query (LinksCreate original short owner) w)
      else if \<not> list_ex (\<lambda>u. id_user u = owner) (users w)
      then (Inl ForeignKeyConstraintError, record_query (LinksCreate original short owner) w)
      else
        let newLink = \<lparr>id_links = next_id_links w, original_link = original,
                       short_link = short, registration_date_links = date,
                       links_id_user = owner\<rparr>
        in (Inr newLink,
            record_query (LinksCreate original short owner)
              (w\<lparr>links := links w @ [newLink], next_id_links := next_id_links w + 1\<rparr>)))"

text \<open>\<open>link.update({original_link})\<close> rewrites the row with the instance's primary key.\<close>

definition LinksModel_update :: "link \<Rightarrow> string \<Rightarrow> world \<Rightarrow> link \<times> world" where
  "LinksModel_update l original w =
     (l\<lparr>original_link := original\<rparr>,
      record_query (LinksUpdate (id_links l) original)
        (w\<lparr>links := map (\<lambda>x. if id_links x = id_links l
                                then x\<lparr>original_link := original\<rparr> else x) (links w)\<rparr>))"

text \<open>\<open>link.destroy()\<close>: the visits of the link go with it (\<open>onDelete: CASCADE\<close>).\<close>

definition LinksModel_destroy :: "link \<Rightarrow> world \<Rightarrow> world" where
  "LinksModel_destroy l w =
     record_query (LinksDestroy (id_links l))
       (w\<lparr>links := filter (\<lambda>x. id_links x \<noteq> id_links l) (links w),
          links_visited := filter (\<lambda>v. visited_id_links v \<noteq> id_links l) (links_visited w)\<rparr>)"

text \<open>\<open>user.destroy()\<close>: the links and the visits of the user go with it, and the
  visits of those links.\<close>

definition UsersModel_destroy :: "user \<Rightarrow> world \<Rightarrow> world" where
  "UsersModel_destroy u w =
     record_query (UsersDestroy (id_user u))
       (w\<lparr>users := filter (\<lambda>x. id_user x \<noteq> id_user u) (users w),
          links := filter (\<lambda>l. links_id_user l \<noteq> id_user u) (links w),
          links_visited :=
            filter (\<lambda>v. visited_id_user v \<noteq> id_user u \<and>
                        \<not> list_ex (\<lambda>l. links_id_user l = id_user u \<and>
                                        id_links l = visited_id_links v) (links w))
                   (links_visited w)\<rparr>)"

text \<open>
  \<open>LinksVisitedModel.create\<close>. The texts of a visit have the widths the model declares:
  \<open>so\<close> 100, \<open>web_navigator\<close> 100, \<open>ip\<close> 45, \<open>country\<close> 50 and \<open>city\<close> 100 characters.
  \<open>stored e n x\<close> is what a column of width \<open>n\<close> gets for \<open>x\<close>, or \<open>None\<close> when the
  database refuses the row.
\<close>

fun stored :: "env \<Rightarrow> nat \<Rightarrow> string option \<Rightarrow> string option option" where
  "stored e n None = Some None"
| "stored e n (Some s) =
     (if length s \<le> n then Some (Some s) else map_option Some (too_long e n s))"

text \<open>A field of a request fits a column of width \<open>n\<close>.\<close>

fun fits :: "nat \<Rightarrow> string js \<Rightarrow> bool" where
  "fits n (Val s) = (length s \<le> n)"
| "fits n Undefined = True"
| "fits n Null = True"

definition LinksVisitedModel_create ::
  "env \<Rightarrow> nat \<Rightarrow> string option \<Rightarrow> string option \<Rightarrow> string option \<Rightarrow> string option \<Rightarrow>
   string option \<Rightarrow> int \<Rightarrow> int \<Rightarrow> world \<Rightarrow> (db_error + visit) \<times> world" where
  "LinksVisitedModel_create e date so' nav ip' country' city' uid lid w =
     (if \<not> list_ex (\<lambda>u. id_user u = uid) (users w) \<or>
         \<not> list_ex (\<lambda>l. id_links l = lid) (links w)
      then (Inl ForeignKeyConstraintError, record_query (LinksVisitedCreate uid lid) w)
      else
        (case (stored e 100 so', stored e 100 nav, stored e 45 ip', stored e 50 country',
               stored e 100 city') of
           (Some so'', Some nav', Some ip'', Some country'', Some city'') \<Rightarrow>
             let linkVisited = \<lparr>id_links_visited = next_id_links_visited w,
                                visited_date = date, so = so'', web_navigator = nav',
                                ip = ip'', country = country'', city = city'',
                                visited_id_user = uid, visited_id_links = lid\<rparr>
             in (Inr linkVisited,
                 record_query (LinksVisitedCreate uid lid)
                   (w\<lparr>links_visited := links_visited w @ [linkVisited],
                      next_id_links_visited := next_id_links_visited w + 1\<rparr>))
         | _ \<Rightarrow> (Inl DataTooLong, record_query (LinksVisitedCreate uid lid) w)))"


section \<open>Requests and responses\<close>

text \<open>\<open>req.body\<close>: the fields the controllers read.\<close>

record body =
  req_original_link :: "string js"
  req_id_user :: "int js"
  req_id_links :: "int js"
  req_so :: "string js"
  req_web_navigator :: "string js"
  req_ip :: "string js"
  req_country :: "string js"
  req_city :: "string js"

text \<open>
  What \<open>res.status(n).send(...)\<close> sends: \<open>Error\<close> is \<open>{ok: false, error: text}\<close> and
  \<open>ErrorOf\<close> the same with the message of a store error; \<open>Message\<close> and \<open>MessageOf\<close>
  are \<open>{ok: false, message: ...}\<close>; the others are \<open>{ok: true, ...}\<close> with a row and a
  message, with the original link, or with the links found.
\<close>

datatype payload =
    Error string
  | ErrorOf db_error
  | Message string
  | MessageOf db_error
  | LinkMessage link string
  | VisitMessage visit string
  | UserMessage user string
  | OriginalLink string
  | Links "link list"

datatype response = Response nat payload

text \<open>\<open>String.prototype.trim\<close>, on the white space of ASCII.\<close>

definition white_space :: "char \<Rightarrow> bool" where
  "white_space c = (c \<in> set [CHR 0x09, CHR 0x0A, CHR 0x0B, CHR 0x0C, CHR 0x0D, CHR 0x20])"

definition trim :: "string \<Rightarrow> string" where
  "trim s = rev (dropWhile white_space (rev (dropWhile white_space s)))"

text \<open>
  \<open>!original_link || typeof original_link !== 'string' || !validator.isURL(original_link.trim())\<close>:
  the empty string is falsy.
\<close>

fun invalid_url :: "env \<Rightarrow> string js \<Rightarrow> bool" where
  "invalid_url e (Val url) = (url = [] \<or> \<not> isURL e (trim url))"
| "invalid_url e Undefined = True"
| "invalid_url e Null = True"

section \<open>Link controllers\<close>

definition generate :: "env \<Rightarrow> world \<Rightarrow> string \<times> world" where
  "generate e w =
     (case generateShortLink (random e) (random_calls w) of
        (code, calls) \<Rightarrow> (code, w\<lparr>random_calls := calls\<rparr>))"

text \<open>
  \<open>linkControllerCreate\<close>, after its checks, first settles the short link: a
  candidate, the query for a link with that \<open>short_link\<close>, and a second candidate
  when the query finds one. Then it calls \<open>LinksModel.create\<close>. Every exception ends
  in the \<open>catch\<close>, with status 500.
\<close>

definition choose_short_link :: "env \<Rightarrow> world \<Rightarrow> (db_error + string) \<times> world" where
  "choose_short_link e w =
     (case generate e w of
        (candidate, w1) \<Rightarrow>
          (case LinksModel_findOne e (ByShortLink candidate) w1 of
             (Inl err, w2) \<Rightarrow> (Inl err, w2)
           | (Inr existsShortLink, w2) \<Rightarrow>
               if existsShortLink \<noteq> None
               then (case generate e w2 of (replacement, w3) \<Rightarrow> (Inr replacement, w3))
               else (Inr candidate, w2)))"

definition create_short_link :: "env \<Rightarrow> string \<Rightarrow> int \<Rightarrow> world \<Rightarrow> response \<times> world" where
  "create_short_link e original owner w =
     (case choose_short_link e w of
        (Inl err, w1) \<Rightarrow> (Response 500 (Error ''Internal server error''), w1)
      | (Inr short, w1) \<Rightarrow>
          (case LinksModel_create e (now e) original short owner w1 of
             (Inl err, w2) \<Rightarrow> (Response 500 (Error ''Internal server error''), w2)
           | (Inr newLink, w2) \<Rightarrow>
               (Response 201 (LinkMessage newLink ''New short link created''), w2)))"

definition linkControllerCreate :: "env \<Rightarrow> body \<Rightarrow> world \<Rightarrow> response \<times> world" where
  "linkControllerCreate e b w =
     (if invalid_url e (req_original_link b)
      then (Response 400 (Error ''Invalid URL''), w)
      else
        (case req_original_link b of
           Val original \<Rightarrow>
             (case LinksModel_findOne e (ByOriginalAndUser original (req_id_user b)) w of
                (Inl err, w1) \<Rightarrow> (Response 500 (Error ''Internal server error''), w1)
              | (Inr (Some existsLink), w1) \<Rightarrow>
                  (Response 400 (Error ''Link already exists for this user''), w1)
              | (Inr None, w1) \<Rightarrow>
                  (case req_id_user b of
                     Val owner \<Rightarrow> create_short_link e original owner w1
                   | Undefined \<Rightarrow> (Response 400 (Error ''User ID is required''), w1)
                   | Null \<Rightarrow> (Response 400 (Error ''User ID is required''), w1)))
         | Undefined \<Rightarrow> (Response 400 (Error ''Invalid URL''), w)
         | Null \<Rightarrow> (Response 400 (Error ''Invalid URL''), w)))"

text \<open>\<open>linkControllerPutID\<close>: the row is found by \<open>req.body.id_links\<close>; \<open>id_param\<close> is
  \<open>req.params.id\<close>, which only the message uses.\<close>

definition linkControllerPutID :: "env \<Rightarrow> string \<Rightarrow> body \<Rightarrow> world \<Rightarrow> response \<times> world" where
  "linkControllerPutID e id_param b w =
     (if invalid_url e (req_original_link b)
      then (Response 400 (Error ''Invalid URL''), w)
      else
        (case req_original_link b of
           Val original \<Rightarrow>
             (case LinksModel_findOne e (ByIdLinks (req_id_links b)) w of
                (Inl err, w1) \<Rightarrow> (Response 500 (ErrorOf err), w1)
              | (Inr (Some l), w1) \<Rightarrow>
                  (case LinksModel_update l original w1 of
                     (l', w2) \<Rightarrow> (Response 200 (LinkMessage l' ''Link updated''), w2))
              | (Inr None, w1) \<Rightarrow>
                  (Response 404 (Error (''Link not found with this id:'' @ id_param)), w1))
         | Undefined \<Rightarrow> (Response 400 (Error ''Invalid URL''), w)
         | Null \<Rightarrow> (Response 400 (Error ''Invalid URL''), w)))"

definition linkControllerDeleteID :: "env \<Rightarrow> string \<Rightarrow> world \<Rightarrow> response \<times> world" where
  "linkControllerDeleteID e id_param w =
     (case number e id_param of
        None \<Rightarrow> (Response 400 (Error ''ID has to be a number''), w)
      | Some n \<Rightarrow>
          (case LinksModel_findOne e (ByIdLinksNumber n) w of
             (Inl err, w1) \<Rightarrow> (Response 500 (ErrorOf err), w1)
           | (Inr (Some l), w1) \<Rightarrow>
               (Response 200 (LinkMessage l ''Link deleted''), LinksModel_destroy l w1)
           | (Inr None, w1) \<Rightarrow>
               (Response 404 (Error (''Link not found with id '' @ id_param)), w1)))"

text \<open>
  \<open>linksControllerOriginalLinkGet\<close>:
  \<^verbatim>\<open>req.params.shortLink.replace(/^https?:\/\/linkcurter\.com\//, '')\<close> removes the
  domain from the front of the parameter, once. The second \<open>if (links)\<close> of the source
  is only reached with a link, so its \<open>else\<close> never runs.
\<close>

definition strip_domain :: "string \<Rightarrow> string" where
  "strip_domain s =
     (if take 23 s = ''https://linkcurter.com/'' then drop 23 s
      else if take 22 s = ''http://linkcurter.com/'' then drop 22 s
      else s)"

definition linksControllerOriginalLinkGet ::
  "env \<Rightarrow> string \<Rightarrow> world \<Rightarrow> response \<times> world" where
  "linksControllerOriginalLinkGet e shortLinkParam w =
     (case LinksModel_findOne e (ByShortLink (strip_domain shortLinkParam)) w of
        (Inl err, w1) \<Rightarrow> (Response 500 (ErrorOf err), w1)
      | (Inr None, w1) \<Rightarrow> (Response 404 (Error ''Short link not found''), w1)
      | (Inr (Some l), w1) \<Rightarrow> (Response 200 (OriginalLink (original_link l)), w1))"

text \<open>
  \<open>linksControllerGetParams\<close>. \<open>findAll\<close> returns an array, which is truthy also when
  it is empty, so the \<open>else\<close> with status 404 never runs.
\<close>

definition linksControllerGetParams ::
  "env \<Rightarrow> string \<Rightarrow> string \<Rightarrow> world \<Rightarrow> response \<times> world" where
  "linksControllerGetParams e attribute data w =
     (case LinksModel_findAll e attribute data w of
        (Inl err, w1) \<Rightarrow> (Response 500 (ErrorOf err), w1)
      | (Inr found, w1) \<Rightarrow> (Response 200 (Links found), w1))"

section \<open>User and visit controllers\<close>

text \<open>The user is read without its \<open>password\<close> attribute.\<close>

definition userControllerDeleteID :: "env \<Rightarrow> string \<Rightarrow> world \<Rightarrow> response \<times> world" where
  "userControllerDeleteID e id_param w =
     (case number e id_param of
        None \<Rightarrow> (Response 400 (Error ''ID has to be a number''), w)
      | Some n \<Rightarrow>
          (case UsersModel_findOne e (ByIdUserNumber n) w of
             (Inl err, w1) \<Rightarrow> (Response 500 (ErrorOf err), w1)
           | (Inr (Some u), w1) \<Rightarrow>
               (Response 200 (UserMessage (u\<lparr>password := []\<rparr>) ''User deleted''),
                UsersModel_destroy u w1)
           | (Inr None, w1) \<Rightarrow>
               (Response 404 (Error (''User not found with id '' @ id_param)), w1)))"

text \<open>A text between single quotes, for the messages that have them.\<close>

definition quoted :: "string \<Rightarrow> string" where
  "quoted s = CHR 0x27 # s @ [CHR 0x27]"

definition users_attribute :: "env \<Rightarrow> string \<Rightarrow> string \<Rightarrow> users_where option" where
  "users_attribute e attribute data =
     (if attribute = ''email'' then Some (ByEmail (Val data))
      else if attribute = ''name'' then Some (ByName data)
      else if attribute = ''id_user''
      then Some (case number e data of None \<Rightarrow> ByIdUser Null | Some n \<Rightarrow> ByIdUserNumber n)
      else None)"

definition userControllerDeleteParam ::
  "env \<Rightarrow> string \<Rightarrow> string \<Rightarrow> world \<Rightarrow> response \<times> world" where
  "userControllerDeleteParam e attribute data w =
     (case users_attribute e attribute data of
        None \<Rightarrow>
          (Response 400
             (Error (''Invalid attribute. You can use only '' @ quoted ''email'' @ '', '' @
                     quoted ''name'' @ '' or '' @ quoted ''id_user'')), w)
      | Some wh \<Rightarrow>
          (case UsersModel_findOne e wh w of
             (Inl err, w1) \<Rightarrow> (Response 500 (ErrorOf err), w1)
           | (Inr (Some u), w1) \<Rightarrow>
               (Response 200 (UserMessage (u\<lparr>password := []\<rparr>) ''User deleted''),
                UsersModel_destroy u w1)
           | (Inr None, w1) \<Rightarrow>
               (Response 404
                  (Error (''User not found with this '' @ attribute @ '': '' @ data)), w1)))"

text \<open>
  \<open>linkVisitedControllerCreate\<close>. \<open>!id_user\<close> and \<open>!id_links\<close> are true of
  \<open>undefined\<close>, \<open>null\<close> and \<open>0\<close>.
\<close>

definition linkVisitedControllerCreate :: "env \<Rightarrow> body \<Rightarrow> world \<Rightarrow> response \<times> world" where
  "linkVisitedControllerCreate e b w =
     (let ipValidation = (if isValidIp (req_ip b) then req_ip b else Null) in
      case req_id_user b of
        Undefined \<Rightarrow> (Response 400 (Error ''id_user is required''), w)
      | Null \<Rightarrow> (Response 400 (Error ''id_user is required''), w)
      | Val uid \<Rightarrow>
          if uid = 0 then (Response 400 (Error ''id_user is required''), w)
          else
            (case UsersModel_findOne e (ByIdUser (Val uid)) w of
               (Inl err, w1) \<Rightarrow> (Response 500 (ErrorOf err), w1)
             | (Inr None, w1) \<Rightarrow> (Response 400 (Error ''User does not exist''), w1)
             | (Inr (Some u), w1) \<Rightarrow>
                 (case req_id_links b of
                    Undefined \<Rightarrow> (Response 400 (Error ''id_links is required''), w1)
                  | Null \<Rightarrow> (Response 400 (Error ''id_links is required''), w1)
                  | Val lid \<Rightarrow>
                      if lid = 0 then (Response 400 (Error ''id_links is required''), w1)
                      else
                        (case LinksModel_findOne e (ByIdLinks (Val lid)) w1 of
                           (Inl err, w2) \<Rightarrow> (Response 500 (ErrorOf err), w2)
                         | (Inr None, w2) \<Rightarrow>
                             (Response 400 (Error ''Link does not exist''), w2)
                         | (Inr (Some l), w2) \<Rightarrow>
                             (case LinksVisitedModel_create e (now e) (column (req_so b))
                                     (column (req_web_navigator b)) (column ipValidation)
                                     (column (req_country b)) (column (req_city b))
                                     uid lid w2 of
                                (Inl err, w3) \<Rightarrow> (Response 500 (ErrorOf err), w3)
                              | (Inr linkVisited, w3) \<Rightarrow>
                                  (Response 201
                                     (VisitMessage linkVisited ''New visited link created''),
                                   w3))))))"

section \<open>The access guard and the routes\<close>

text \<open>
  \<open>protectRoute(role)\<close> as a function of the \<open>authorization\<close> header. It either calls
  \<open>next()\<close> or answers itself. An empty header is falsy, as a missing one;
  \<open>token.substring(7)\<close> drops the first seven characters.
\<close>

datatype guard = Next | Reply response

definition without_token :: "string \<Rightarrow> world \<Rightarrow> guard \<times> world" where
  "without_token requiredRole w =
     (if requiredRole = [] then (Next, w)
      else (Reply (Response 401 (Error ''Unauthorized user'')), w))"

definition with_token :: "env \<Rightarrow> string \<Rightarrow> string \<Rightarrow> world \<Rightarrow> guard \<times> world" where
  "with_token e requiredRole token w =
     (case verify e (drop 7 token) of
        Inl msg \<Rightarrow> (Reply (Response 401 (Message msg)), w)
      | Inr claim \<Rightarrow>
          (case UsersModel_findOne e (ByEmail claim) w of
             (Inl err, w1) \<Rightarrow> (Reply (Response 401 (MessageOf err)), w1)
           | (Inr (Some u), w1) \<Rightarrow>
               (if requiredRole = ''user'' \<and> (role u = ''user'' \<or> role u = ''admin'')
                then (Next, w1)
                else if requiredRole = ''admin'' \<and> role u = ''admin''
                then (Next, w1)
                else (Reply (Response 401 (Error ''Unauthorized user'')), w1))
           | (Inr None, w1) \<Rightarrow> (Reply (Response 400 (Error ''User not found'')), w1)))"

definition protectRoute ::
  "env \<Rightarrow> string \<Rightarrow> string option \<Rightarrow> world \<Rightarrow> guard \<times> world" where
  "protectRoute e requiredRole authorization w =
     (case authorization of
        None \<Rightarrow> without_token requiredRole w
      | Some token \<Rightarrow>
          if token = [] then without_token requiredRole w
          else with_token e requiredRole token w)"

text \<open>
  A router tries its routes in the order of their declaration. A path is the list of
  its segments; \<open>:name\<close> takes one segment, which is not empty. The first route whose
  path matches runs its guard, if it has one, and then its controller.
\<close>

datatype segment = Lit string | Param string

fun match_path :: "segment list \<Rightarrow> string list \<Rightarrow> (string \<times> string) list option" where
  "match_path [] [] = Some []"
| "match_path (Lit l # ps) (x # xs) = (if l = x then match_path ps xs else None)"
| "match_path (Param n # ps) (x # xs) =
     (if x = [] then None else map_option (\<lambda>r. (n, x) # r) (match_path ps xs))"
| "match_path [] (x # xs) = None"
| "match_path (p # ps) [] = None"

datatype handler =
    LinksControllerGet
  | LinksControllerAllGet
  | LinksControllerOriginalLinkGet
  | LinksControllerGetID
  | LinksControllerGetIDAll
  | LinksControllerGetParams
  | LinksControllerGetParamsAll
  | LinksSearchDateControllerGet
  | LinkControllerGetCount
  | LinkControllerGetCountAll

datatype outcome = NoRoute | Rejected response | Handled handler "(string \<times> string) list"

fun dispatch ::
  "env \<Rightarrow> (segment list \<times> string option \<times> handler) list \<Rightarrow> string list \<Rightarrow>
   string option \<Rightarrow> world \<Rightarrow> outcome \<times> world" where
  "dispatch e [] path authorization w = (NoRoute, w)"
| "dispatch e ((pattern, protect, controller) # routes) path authorization w =
     (case match_path pattern path of
        None \<Rightarrow> dispatch e routes path authorization w
      | Some params \<Rightarrow>
          (case protect of
             None \<Rightarrow> (Handled controller params, w)
           | Some requiredRole \<Rightarrow>
               (case protectRoute e requiredRole authorization w of
                  (Next, w1) \<Rightarrow> (Handled controller params, w1)
                | (Reply r, w1) \<Rightarrow> (Rejected r, w1))))"

text \<open>The \<open>GET\<close> routes of \<open>linksRouteGet\<close>, in the order of the file.\<close>

definition api :: "segment list \<Rightarrow> segment list" where
  "api ps = Lit ''api'' # Lit ''v1'' # ps"

definition linksRouteGet_routes :: "(segment list \<times> string option \<times> handler) list" where
  "linksRouteGet_routes =
     [(api [Lit ''links''], Some ''admin'', LinksControllerGet),
      (api [Lit ''links'', Lit ''all''], Some ''admin'', LinksControllerAllGet),
      (api [Lit ''links'', Lit ''original'', Param ''shortLink''], None,
         LinksControllerOriginalLinkGet),
      (api [Lit ''links'', Param ''id''], Some ''user'', LinksControllerGetID),
      (api [Lit ''links'', Lit ''all'', Param ''id''], Some ''user'', LinksControllerGetIDAll),
      (api [Lit ''links'', Param ''attribute'', Param ''data''], None,
         LinksControllerGetParams),
      (api [Lit ''links'', Lit ''all'', Param ''attribute'', Param ''data''], Some ''user'',
         LinksControllerGetParamsAll),
      (api [Lit ''links'', Lit ''date'', Param ''initialDate'', Param ''finalDate''],
         Some ''user'', LinksSearchDateControllerGet),
      (api [Lit ''count'', Lit ''id_user'', Param ''id_user'', Lit ''links''], Some ''user'',
         LinkControllerGetCount),
      (api [Lit ''count'', Lit ''all'', Lit ''links''], Some ''admin'',
         LinkControllerGetCountAll)]"

definition linksRouteGet ::
  "env \<Rightarrow> string list \<Rightarrow> string option \<Rightarrow> world \<Rightarrow> outcome \<times> world" where
  "linksRouteGet e path authorization w = dispatch e linksRouteGet_routes path authorization w"

section \<open>The states of the store\<close>

text \<open>
  The store starts with empty tables. A step is one request served. The controllers
  that write the \<open>links\<close> table are the four above that create, update and destroy
  links and destroy users; the rule \<open>other\<close> stands for every other request
  (registration, login, profile and password changes, the reads, the deletion of a
  visit), none of which writes that table.
\<close>

definition init :: world where
  "init = \<lparr>users = [], links = [], links_visited = [], next_id_links = 1,
           next_id_links_visited = 1, queries = [], random_calls = 0\<rparr>"

inductive step :: "world \<Rightarrow> world \<Rightarrow> bool" where
  create: "step w (snd (linkControllerCreate e b w))"
| put: "step w (snd (linkControllerPutID e id_param b w))"
| delete: "step w (snd (linkControllerDeleteID e id_param w))"
| resolve: "step w (snd (linksControllerOriginalLinkGet e shortLinkParam w))"
| search: "step w (snd (linksControllerGetParams e attribute data w))"
| delete_user: "step w (snd (userControllerDeleteID e id_param w))"
| delete_user_by: "step w (snd (userControllerDeleteParam e attribute data w))"
| visit: "step w (snd (linkVisitedControllerCreate e b w))"
| guard: "step w (snd (protectRoute e requiredRole authorization w))"
| other: "links w' = links w \<Longrightarrow> step w w'"

inductive reachable :: "world \<Rightarrow> bool" where
  at_start: "reachable init"
| after_step: "reachable w \<Longrightarrow> step w w' \<Longrightarrow> reachable w'"

definition unique_short_links :: "world \<Rightarrow> bool" where
  "unique_short_links w = distinct (map short_link (links w))"

section \<open>Sample data\<close>

text \<open>
  Two registered users, a token for each and one for an address that no user has, the
  repository's own \<open>urlVerification\<close> for the check of URLs, and three sequences of
  random numbers.
\<close>

definition alice :: user where
  "alice = \<lparr>id_user = 1, email = ''alice@example.com'', password = ''$2b$10$hash'',
            name = ''Alice'', r_date = 0, b_date = None, role = ''user''\<rparr>"

definition bob :: user where
  "bob = \<lparr>id_user = 2, email = ''bob@example.com'', password = ''$2b$10$hash'',
          name = ''Bob'', r_date = 0, b_date = None, role = ''admin''\<rparr>"

definition sample_verify :: "string \<Rightarrow> string + string js" where
  "sample_verify token =
     (if token = ''token-of-alice'' then Inr (Val ''alice@example.com'')
      else if token = ''token-of-bob'' then Inr (Val ''bob@example.com'')
      else if token = ''token-of-carol'' then Inr (Val ''carol@example.com'')
      else Inl ''jwt malformed'')"

text \<open>A collation that ignores the case of the letters of ASCII.\<close>

definition lower :: "char \<Rightarrow> char" where
  "lower c =
     (case map_of (zip ''ABCDEFGHIJKLMNOPQRSTUVWXYZ'' ''abcdefghijklmnopqrstuvwxyz'') c of
        None \<Rightarrow> c
      | Some d \<Rightarrow> d)"

definition ignoring_case :: "string \<Rightarrow> string" where
  "ignoring_case s = map lower s"

definition sample_compare :: "string \<Rightarrow> string \<Rightarrow> (link \<Rightarrow> bool) option" where
  "sample_compare attribute data =
     (if attribute = ''short_link''
      then Some (\<lambda>l. ignoring_case (short_link l) = ignoring_case data)
      else if attribute = ''original_link''
      then Some (\<lambda>l. ignoring_case (original_link l) = ignoring_case data)
      else None)"

text \<open>The database of the samples ignores case and refuses a text that is too long.\<close>

definition sample_env :: "(nat \<Rightarrow> rat) \<Rightarrow> env" where
  "sample_env r = \<lparr>isURL = urlVerification, random = r, now = 0, verify = sample_verify,
                   number = (\<lambda>s. None), compare = sample_compare,
                   collation = ignoring_case, too_long = (\<lambda>n s. None)\<rparr>"

text \<open>The same with a database that shortens such a text to the width of its column.\<close>

definition shortening_env :: "(nat \<Rightarrow> rat) \<Rightarrow> env" where
  "shortening_env r = (sample_env r)\<lparr>too_long := (\<lambda>n s. Some (take n s))\<rparr>"

definition zeros :: "nat \<Rightarrow> rat" where
  "zeros n = 0"


definition zeros_then_halves :: "nat \<Rightarrow> rat" where
  "zeros_then_halves n = (if n < 8 then 0 else 1 / 2)"

definition two_users :: world where
  "two_users = init\<lparr>users := [alice, bob]\<rparr>"

definition page :: string where
  "page = ''https://example.com/page''"

definition page_of :: "int js \<Rightarrow> body" where
  "page_of owner = \<lparr>req_original_link = Val page, req_id_user = owner,
                    req_id_links = Undefined, req_so = Undefined,
                    req_web_navigator = Undefined, req_ip = Undefined,
                    req_country = Undefined, req_city = Undefined\<rparr>"

text \<open>The store after Alice has shortened the page, with four zeros drawn.\<close>

definition link_of_alice :: link where
  "link_of_alice = \<lparr>id_links = 1, original_link = page, short_link = ''aaaa'',
                    registration_date_links = 0, links_id_user = 1\<rparr>"

definition after_alice :: world where
  "after_alice =
     two_users\<lparr>links := [link_of_alice], next_id_links := 2,
       queries := [LinksFindOne (ByOriginalAndUser page (Val 1)),
                   LinksFindOne (ByShortLink ''aaaa''), LinksCreate page ''aaaa'' 1],
       random_calls := 4\<rparr>"

text \<open>A visit of that link by Bob, reported with an address that is no IPv4 address.\<close>

definition visit_of_bob :: body where
  "visit_of_bob = \<lparr>req_original_link = Undefined, req_id_user = Val 2, req_id_links = Val 1,
                   req_so = Val ''Linux'', req_web_navigator = Val ''Firefox'',
                   req_ip = Val ''999.1.1.1'', req_country = Val ''Spain'',
                   req_city = Undefined\<rparr>"

text \<open>The same visit with a country of 51 characters.\<close>

definition long_visit_of_bob :: body where
  "long_visit_of_bob = visit_of_bob\<lparr>req_country := Val (replicate 51 CHR ''x'')\<rparr>"

section \<open>Evaluation\<close>

lemmas regex_defs = url_regex_def ip_regex_def octet_def oneof_def optional_def many1_def
  word_or_dash_def any_char_def

lemmas store_defs = LinksModel_findOne_def LinksModel_create_def UsersModel_findOne_def
  record_query_def generate_def same_text_def

lemma ignoring_case_samples:
  "ignoring_case ''aaaa'' = ''aaaa''"
  "ignoring_case ''AAAA'' = ''aaaa''"
  "ignoring_case ''EEEE'' = ''eeee''"
  "ignoring_case ''bbbb'' = ''bbbb''"
  "ignoring_case ''abcd'' = ''abcd''"
  "ignoring_case ''https://example.com/page'' = ''https://example.com/page''"
  "ignoring_case ''alice@example.com'' = ''alice@example.com''"
  "ignoring_case ''bob@example.com'' = ''bob@example.com''"
  "ignoring_case ''carol@example.com'' = ''carol@example.com''"
  by (simp_all add: ignoring_case_def lower_def)

lemmas sample_defs = sample_env_def two_users_def init_def page_of_def page_def alice_def
  bob_def sample_verify_def after_alice_def link_of_alice_def same_text_def
  ignoring_case_samples

lemma valid_page: "\<not> invalid_url (sample_env r) (Val page)"
  by (simp add: sample_env_def page_def urlVerification_def regex_defs trim_def white_space_def)

text \<open>The loop of the generator runs four times, whatever is drawn.\<close>

lemma generateShortLink_unfold:
  "generateShortLink r k =
     (charAt char \<lfloor>r k * of_nat (length char)\<rfloor> @
      charAt char \<lfloor>r (k + 1) * of_nat (length char)\<rfloor> @
      charAt char \<lfloor>r (k + 2) * of_nat (length char)\<rfloor> @
      charAt char \<lfloor>r (k + 3) * of_nat (length char)\<rfloor>, k + 4)"
  by (simp add: generateShortLink_def Let_def numeral_eq_Suc)

lemma generateShortLink_calls: "snd (generateShortLink r k) = k + 4"
  by (simp add: generateShortLink_unfold)

lemma generateShortLink_zeros: "generateShortLink zeros k = (''aaaa'', k + 4)"
  by (simp add: generateShortLink_unfold char_def charAt_def zeros_def)

lemma half_index: "\<lfloor>(61 :: rat) / 2\<rfloor> = 30"
  by (simp add: floor_eq_iff)


lemma generateShortLink_zeros_then_halves:
  "generateShortLink zeros_then_halves 4 = (''aaaa'', 8)"
  "generateShortLink zeros_then_halves 8 = (''EEEE'', 12)"
  by (simp_all add: generateShortLink_unfold zeros_then_halves_def charAt_def char_def
        half_index)

lemma set_charAt: "set (charAt s i) \<subseteq> set s"
  by (auto simp: charAt_def)

section \<open>The code generator\<close>

lemma draw_47_62: "\<lfloor>(2867 :: rat) / 62\<rfloor> = 46"
  by (simp add: floor_eq_iff)

text \<open>
  C2. The claim is that a code has four characters, each drawn from the 62 symbols
  \<open>[a-zA-Z0-9]\<close>, and that every one of them, every capital letter included, can occur.
  The string \<open>char\<close> of the generator has 61 symbols: the capital letter V is not in
  it, and no code contains it, whatever \<open>Math.random\<close> returns. The draw \<open>47/62\<close>,
  which selects V among 62 symbols, selects U.
\<close>

theorem generateShortLink_never_V:
  "length char = 61 \<and> CHR ''V'' \<notin> set char \<and>
   CHR ''V'' \<notin> set (fst (generateShortLink r k)) \<and>
   fst (generateShortLink (\<lambda>n. 47 / 62) 0) = ''UUUU''"
proof -
  have "set (fst (generateShortLink r k)) \<subseteq> set char"
    using set_charAt[of char] by (auto simp: generateShortLink_unfold)
  moreover have "CHR ''V'' \<notin> set char"
    by (simp add: char_def)
  moreover have "fst (generateShortLink (\<lambda>n. 47 / 62) 0) = ''UUUU''"
    by (simp add: generateShortLink_unfold charAt_def char_def draw_47_62)
  ultimately show ?thesis
    by (auto simp: char_def)
qed

section \<open>The routes and the guard\<close>

text \<open>
  C4. The claim is that \<open>GET /links/:attribute/:data\<close> is an authenticated read: without
  a valid credential the guard rejects the request and the query is not run. The
  route is declared without \<open>protectRoute\<close>: a request for
  \<open>/api/v1/links/short_link/abcd\<close> with no \<open>authorization\<close> header reaches
  \<open>linksControllerGetParams\<close>, in every state of the store, and the controller runs
  its query.
\<close>

theorem links_attribute_route_unprotected:
  "linksRouteGet e [''api'', ''v1'', ''links'', ''short_link'', ''abcd''] None w =
     (Handled LinksControllerGetParams [(''attribute'', ''short_link''), (''data'', ''abcd'')],
      w) \<and>
   queries (snd (linksControllerGetParams e ''short_link'' ''abcd'' w)) =
     queries w @ [LinksFindAll ''short_link'' ''abcd''] \<and>
   linksControllerGetParams (sample_env zeros) ''short_link'' ''aaaa'' after_alice =
     (Response 200 (Links [link_of_alice]),
      record_query (LinksFindAll ''short_link'' ''aaaa'') after_alice)"
  by (simp add: linksRouteGet_def linksRouteGet_routes_def api_def linksControllerGetParams_def
        LinksModel_findAll_def record_query_def sample_env_def sample_compare_def
        after_alice_def link_of_alice_def split: option.splits)

text \<open>
  C8. The claim is that the guard lets a request pass exactly when the required role is
  empty, or is \<open>user\<close> and the user's role is \<open>user\<close> or \<open>admin\<close>, or is \<open>admin\<close> and the
  user's role is \<open>admin\<close>. With an empty required role the guard lets a request pass
  only when it has no token: Alice, a registered user with a valid token, is answered
  401 by \<open>protectRoute("")\<close>.
\<close>

theorem empty_role_rejects_token:
  "protectRoute (sample_env zeros) [] (Some ''Bearer token-of-alice'') two_users =
     (Reply (Response 401 (Error ''Unauthorized user'')),
      two_users\<lparr>queries := [UsersFindOne (ByEmail (Val ''alice@example.com''))]\<rparr>)"
  by (simp add: protectRoute_def with_token_def store_defs sample_defs)

text \<open>
  C9. The claim is that a credential whose email belongs to no user is answered "User
  not found" with status 401. The guard answers it with status 400: so for the token
  of Carol, who is not registered, on a route for users.
\<close>

theorem unknown_user_is_not_401:
  "fst (protectRoute (sample_env zeros) ''user'' (Some ''Bearer token-of-carol'') two_users) =
     Reply (Response 400 (Error ''User not found'')) \<and>
   fst (protectRoute (sample_env zeros) ''user'' (Some ''Bearer token-of-carol'') two_users) \<noteq>
     Reply (Response 401 (Error ''User not found''))"
  by (simp add: protectRoute_def with_token_def store_defs sample_defs)

text \<open>
  C9, as amended. A token that verifies, with an email that no user has, is answered
  "User not found" with status 400, whatever role the route requires.
\<close>

theorem unknown_user_is_400:
  assumes "token \<noteq> []" and "verify e (drop 7 token) = Inr (Val address)"
    and "find (\<lambda>u. same_text e (email u) address) (users w) = None"
  shows "fst (protectRoute e requiredRole (Some token) w) =
           Reply (Response 400 (Error ''User not found''))"
  using assms by (simp add: protectRoute_def with_token_def store_defs)

theorem unknown_user_is_400_witness:
  "fst (protectRoute (sample_env zeros) ''admin'' (Some ''Bearer token-of-carol'') two_users) =
     Reply (Response 400 (Error ''User not found''))"
  using unknown_user_is_400[of "''Bearer token-of-carol''" "sample_env zeros"
      "''carol@example.com''" two_users "''admin''"]
  by (simp add: sample_defs)

section \<open>The allocation of a link\<close>

lemma findOne_tables:
  "LinksModel_findOne e wh w = (r, w') \<Longrightarrow>
   links w' = links w \<and> users w' = users w \<and> random_calls w' = random_calls w"
  by (auto simp: LinksModel_findOne_def record_query_def split: sum.splits)

lemma generate_tables:
  "generate e w = (c, w') \<Longrightarrow> links w' = links w \<and> users w' = users w"
  by (auto simp: generate_def split: prod.splits)

lemma choose_tables:
  "choose_short_link e w = (r, w') \<Longrightarrow> links w' = links w \<and> users w' = users w"
  by (auto simp: choose_short_link_def split: prod.splits sum.splits if_splits
        dest!: generate_tables findOne_tables)





text \<open>
  C1. When the candidate is the \<open>short_link\<close> of a link, the controller draws one
  replacement and creates the link with it, without a query for the replacement: the
  calls on the model are the query for a duplicate, the query for the candidate and
  \<open>create\<close> with the replacement, and \<open>Math.random\<close> has been called eight times, for
  two codes. Nothing follows \<open>create\<close>: when the replacement is taken as well (or the
  owner is no user) the answer is 500 and the table is as before.
\<close>

theorem one_replacement_unchecked:
  assumes "req_original_link b = Val original" and "\<not> invalid_url e (Val original)"
    and "req_id_user b = Val owner"
    and "find (\<lambda>l. same_text e (original_link l) original \<and> links_id_user l = owner)
           (links w) = None"
    and "generateShortLink (random e) (random_calls w) = (candidate, n)"
    and "generateShortLink (random e) n = (replacement, n')"
    and "list_ex (\<lambda>l. same_text e (short_link l) candidate) (links w)"
  shows "queries (snd (linkControllerCreate e b w)) =
           queries w @ [LinksFindOne (ByOriginalAndUser original (Val owner)),
                        LinksFindOne (ByShortLink candidate),
                        LinksCreate original replacement owner] \<and>
         random_calls (snd (linkControllerCreate e b w)) = random_calls w + 8 \<and>
         (if list_ex (\<lambda>l. same_text e (short_link l) replacement) (links w) \<or>
             \<not> list_ex (\<lambda>u. id_user u = owner) (users w)
          then fst (linkControllerCreate e b w) =
                 Response 500 (Error ''Internal server error'') \<and>
               links (snd (linkControllerCreate e b w)) = links w
          else fst (linkControllerCreate e b w) =
                 Response 201
                   (LinkMessage
                      \<lparr>id_links = next_id_links w, original_link = original,
                       short_link = replacement, registration_date_links = now e,
                       links_id_user = owner\<rparr> ''New short link created'') \<and>
               links (snd (linkControllerCreate e b w)) =
                 links w @ [\<lparr>id_links = next_id_links w, original_link = original,
                             short_link = replacement, registration_date_links = now e,
                             links_id_user = owner\<rparr>])"
proof -
  have n: "n = random_calls w + 4" "n' = random_calls w + 8"
    using assms(5,6) generateShortLink_calls[of "random e" "random_calls w"]
      generateShortLink_calls[of "random e" n]
    by auto
  have f: "find (\<lambda>l. same_text e (short_link l) candidate) (links w) \<noteq> None"
    using assms(7) by (auto simp: find_None_iff list_ex_iff)
  show ?thesis
    using assms n f
    by (simp add: linkControllerCreate_def create_short_link_def choose_short_link_def
          store_defs Let_def)
qed

theorem one_replacement_unchecked_witness:
  "queries (snd (linkControllerCreate (sample_env zeros_then_halves) (page_of (Val 2))
      after_alice)) =
     queries after_alice @ [LinksFindOne (ByOriginalAndUser page (Val 2)),
                            LinksFindOne (ByShortLink ''aaaa''),
                            LinksCreate page ''EEEE'' 2] \<and>
   random_calls (snd (linkControllerCreate (sample_env zeros_then_halves) (page_of (Val 2))
      after_alice)) = 12 \<and>
   links (snd (linkControllerCreate (sample_env zeros_then_halves) (page_of (Val 2))
      after_alice)) =
     [link_of_alice,
      \<lparr>id_links = 2, original_link = page, short_link = ''EEEE'',
       registration_date_links = 0, links_id_user = 2\<rparr>]"
proof -
  have h1: "req_original_link (page_of (Val 2)) = Val page"
    "req_id_user (page_of (Val 2)) = Val 2"
    by (simp_all add: page_of_def)
  have h2: "find (\<lambda>l. same_text (sample_env zeros_then_halves) (original_link l) page \<and>
      links_id_user l = 2) (links after_alice) = None"
    by (simp add: after_alice_def link_of_alice_def)
  have h3: "generateShortLink (random (sample_env zeros_then_halves))
      (random_calls after_alice) = (''aaaa'', 8)"
    "generateShortLink (random (sample_env zeros_then_halves)) 8 = (''EEEE'', 12)"
    by (simp_all add: sample_env_def after_alice_def generateShortLink_zeros_then_halves)
  have h4: "list_ex (\<lambda>l. same_text (sample_env zeros_then_halves) (short_link l) ''aaaa'')
      (links after_alice)"
    by (simp add: after_alice_def link_of_alice_def same_text_def)
  have h5: "\<not> list_ex (\<lambda>l. same_text (sample_env zeros_then_halves) (short_link l) ''EEEE'')
      (links after_alice)"
    by (simp add: after_alice_def link_of_alice_def same_text_def sample_env_def
          ignoring_case_samples)
  have h6: "list_ex (\<lambda>u. id_user u = 2) (users after_alice)"
    by (simp add: after_alice_def two_users_def alice_def bob_def)
  have v: "links after_alice = [link_of_alice]" "next_id_links after_alice = 2"
    "random_calls after_alice = 4" "now (sample_env zeros_then_halves) = 0"
    by (simp_all add: after_alice_def sample_env_def)
  show ?thesis
    using one_replacement_unchecked[OF h1(1) valid_page h1(2) h2 h3 h4] h5 h6
    by (simp add: v)
qed

text \<open>
  C6. The claim is that a request without a user identifier fails with "User ID is
  required" before the query for an existing link is issued. The controller issues the
  query first: with \<open>id_user\<close> \<open>null\<close> the answer is "User ID is required" after the
  query, and with \<open>id_user\<close> missing the query itself raises and the answer is 500.
\<close>

theorem user_id_checked_after_query:
  "linkControllerCreate (sample_env zeros) (page_of Null) two_users =
     (Response 400 (Error ''User ID is required''),
      two_users\<lparr>queries := [LinksFindOne (ByOriginalAndUser page Null)]\<rparr>) \<and>
   linkControllerCreate (sample_env zeros) (page_of Undefined) two_users =
     (Response 500 (Error ''Internal server error''),
      two_users\<lparr>queries := [LinksFindOne (ByOriginalAndUser page Undefined)]\<rparr>)"
  using valid_page[of zeros]
  by (simp add: linkControllerCreate_def store_defs page_of_def two_users_def init_def)

subsection \<open>The same page twice\<close>





lemma alice_allocates:
  "fst (generateShortLink r 0) = ''aaaa'' \<Longrightarrow>
   linkControllerCreate (sample_env r) (page_of (Val 1)) two_users =
     (Response 201 (LinkMessage link_of_alice ''New short link created''), after_alice)"
  using valid_page[of r] generateShortLink_calls[of r 0]
  by (cases "generateShortLink r 0")
     (simp add: linkControllerCreate_def create_short_link_def choose_short_link_def store_defs
        page_of_def two_users_def init_def after_alice_def link_of_alice_def alice_def bob_def
        sample_env_def Let_def)

lemma bob_collides_twice:
  "fst (linkControllerCreate (sample_env zeros) (page_of (Val 2)) after_alice) =
     Response 500 (Error ''Internal server error'') \<and>
   links (snd (linkControllerCreate (sample_env zeros) (page_of (Val 2)) after_alice)) =
     [link_of_alice]"
  using valid_page[of zeros]
  by (simp add: linkControllerCreate_def create_short_link_def choose_short_link_def store_defs
        generateShortLink_zeros page_of_def two_users_def init_def after_alice_def
        link_of_alice_def alice_def bob_def sample_env_def Let_def)




section \<open>Uniqueness of the short links\<close>

lemma users_findOne_links: "UsersModel_findOne e wh w = (r, w') \<Longrightarrow> links w' = links w"
  by (auto simp: UsersModel_findOne_def record_query_def split: sum.splits)

lemma same_links_unique:
  "links w' = links w \<Longrightarrow> unique_short_links w \<Longrightarrow> unique_short_links w'"
  by (simp add: unique_short_links_def)

text \<open>The index lets \<open>create\<close> add a row only with a \<open>short_link\<close> that no row has.\<close>

lemma create_unique:
  "LinksModel_create e d original short owner w = (r, w') \<Longrightarrow> unique_short_links w \<Longrightarrow>
   unique_short_links w'"
  by (auto simp: unique_short_links_def LinksModel_create_def record_query_def Let_def
        list_ex_iff same_text_def split: if_splits)

lemma map_short_link_update:
  "map short_link (map (\<lambda>x. if id_links x = i then x\<lparr>original_link := original\<rparr> else x) xs)
     = map short_link xs"
  by (induction xs) auto

lemma update_unique:
  "LinksModel_update l original w = (l', w') \<Longrightarrow> unique_short_links w \<Longrightarrow>
   unique_short_links w'"
  unfolding unique_short_links_def LinksModel_update_def record_query_def
  using map_short_link_update[of "id_links l" original "links w"]
  by (auto simp del: map_map)

lemma links_destroy_unique:
  "unique_short_links w \<Longrightarrow> unique_short_links (LinksModel_destroy l w)"
  by (simp add: unique_short_links_def LinksModel_destroy_def record_query_def
        distinct_map_filter)

lemma users_destroy_unique:
  "unique_short_links w \<Longrightarrow> unique_short_links (UsersModel_destroy u w)"
  by (simp add: unique_short_links_def UsersModel_destroy_def record_query_def
        distinct_map_filter)

lemma create_short_link_unique:
  "create_short_link e original owner w = (r, w') \<Longrightarrow> unique_short_links w \<Longrightarrow>
   unique_short_links w'"
  by (auto simp: create_short_link_def split: prod.splits sum.splits
        dest!: choose_tables dest: create_unique same_links_unique)

lemma linkControllerCreate_unique:
  assumes "unique_short_links w"
  shows "unique_short_links (snd (linkControllerCreate e b w))"
proof -
  have "unique_short_links (snd (create_short_link e original owner w1))"
    if "links w1 = links w" for original owner w1
    using that assms create_short_link_unique[of e original owner w1]
      same_links_unique[of w1 w]
    by (cases "create_short_link e original owner w1") auto
  then show ?thesis
    using assms
    by (auto simp: linkControllerCreate_def
          split: js.splits prod.splits sum.splits option.splits
          dest!: findOne_tables dest: same_links_unique)
qed

lemma linkControllerPutID_unique:
  "unique_short_links w \<Longrightarrow> unique_short_links (snd (linkControllerPutID e id_param b w))"
  by (auto simp: linkControllerPutID_def split: js.splits prod.splits sum.splits option.splits
        dest!: findOne_tables dest: update_unique same_links_unique)

lemma linkControllerDeleteID_unique:
  "unique_short_links w \<Longrightarrow> unique_short_links (snd (linkControllerDeleteID e id_param w))"
  by (auto simp: linkControllerDeleteID_def split: prod.splits sum.splits option.splits
        dest!: findOne_tables intro!: links_destroy_unique dest: same_links_unique)

lemma userControllerDeleteID_unique:
  "unique_short_links w \<Longrightarrow> unique_short_links (snd (userControllerDeleteID e id_param w))"
  by (auto simp: userControllerDeleteID_def split: prod.splits sum.splits option.splits
        dest!: users_findOne_links intro!: users_destroy_unique dest: same_links_unique)

lemma userControllerDeleteParam_unique:
  "unique_short_links w \<Longrightarrow>
   unique_short_links (snd (userControllerDeleteParam e attribute data w))"
  by (auto simp: userControllerDeleteParam_def split: prod.splits sum.splits option.splits
        dest!: users_findOne_links intro!: users_destroy_unique dest: same_links_unique)

lemma visited_create_links:
  "LinksVisitedModel_create e d a b c f g uid lid w = (r, w') \<Longrightarrow> links w' = links w"
  by (auto simp: LinksVisitedModel_create_def record_query_def Let_def
        split: if_splits option.splits)

lemma linkVisitedControllerCreate_links:
  "links (snd (linkVisitedControllerCreate e b w)) = links w"
  by (auto simp: linkVisitedControllerCreate_def Let_def
        split: js.splits prod.splits sum.splits option.splits
        dest!: users_findOne_links findOne_tables visited_create_links)

lemma linksControllerOriginalLinkGet_links:
  "links (snd (linksControllerOriginalLinkGet e s w)) = links w"
  by (auto simp: linksControllerOriginalLinkGet_def
        split: prod.splits sum.splits option.splits dest!: findOne_tables)

lemma linksControllerGetParams_links:
  "links (snd (linksControllerGetParams e attribute data w)) = links w"
  by (auto simp: linksControllerGetParams_def LinksModel_findAll_def record_query_def
        split: option.splits)

lemma protectRoute_links: "links (snd (protectRoute e r a w)) = links w"
  by (auto simp: protectRoute_def with_token_def without_token_def
        split: prod.splits sum.splits option.splits dest!: users_findOne_links)

lemma step_unique: "step w w' \<Longrightarrow> unique_short_links w \<Longrightarrow> unique_short_links w'"
proof (induction rule: step.induct)
  case (create w e b)
  then show ?case by (rule linkControllerCreate_unique)
next
  case (put w e id_param b)
  then show ?case by (rule linkControllerPutID_unique)
next
  case (delete w e id_param)
  then show ?case by (rule linkControllerDeleteID_unique)
next
  case (resolve w e shortLinkParam)
  then show ?case using linksControllerOriginalLinkGet_links same_links_unique by blast
next
  case (search w e attribute data)
  then show ?case using linksControllerGetParams_links same_links_unique by blast
next
  case (delete_user w e id_param)
  then show ?case by (rule userControllerDeleteID_unique)
next
  case (delete_user_by w e attribute data)
  then show ?case by (rule userControllerDeleteParam_unique)
next
  case (visit w e b)
  then show ?case using linkVisitedControllerCreate_links same_links_unique by blast
next
  case (guard w e requiredRole authorization)
  then show ?case using protectRoute_links same_links_unique by blast
next
  case (other w' w)
  then show ?case by (rule same_links_unique)
qed

lemma reachable_unique: "reachable w \<Longrightarrow> unique_short_links w"
proof (induction rule: reachable.induct)
  case at_start
  show ?case by (simp add: unique_short_links_def init_def)
next
  case (after_step w w')
  then show ?case using step_unique by blast
qed

text \<open>
  C3. In every state the store can reach, no two links have the same \<open>short_link\<close>,
  and every request keeps it so: the allocation too, since \<open>create\<close> is refused by the
  unique index when the short link it is given, checked or not, is taken.
\<close>

theorem short_links_stay_unique:
  "(reachable w \<longrightarrow> unique_short_links w) \<and>
   (unique_short_links w \<longrightarrow> step w w' \<longrightarrow> unique_short_links w')"
  using reachable_unique step_unique by blast

theorem short_links_stay_unique_witness:
  "reachable after_alice \<and> unique_short_links after_alice \<and>
   step after_alice
     (snd (linkControllerCreate (sample_env zeros) (page_of (Val 2)) after_alice)) \<and>
   unique_short_links
     (snd (linkControllerCreate (sample_env zeros) (page_of (Val 2)) after_alice)) \<and>
   map short_link
     (links (snd (linkControllerCreate (sample_env zeros) (page_of (Val 2)) after_alice))) =
     [''aaaa'']"
proof -
  have "step init two_users"
    by (rule step.other) (simp add: two_users_def)
  then have "reachable two_users"
    using reachable.at_start reachable.after_step by blast
  moreover have "step two_users
      (snd (linkControllerCreate (sample_env zeros) (page_of (Val 1)) two_users))"
    by (rule step.create)
  ultimately have r: "reachable after_alice"
    using alice_allocates[of zeros] reachable.after_step[of two_users]
    by (simp add: generateShortLink_zeros)
  have s: "step after_alice
      (snd (linkControllerCreate (sample_env zeros) (page_of (Val 2)) after_alice))"
    by (rule step.create)
  show ?thesis
    using r s bob_collides_twice
      short_links_stay_unique[of after_alice
        "snd (linkControllerCreate (sample_env zeros) (page_of (Val 2)) after_alice)"]
    by (simp add: link_of_alice_def)
qed

section \<open>The lookup\<close>

lemma strip_domain_https: "strip_domain (''https://linkcurter.com/'' @ s) = s"
  by (simp add: strip_domain_def)

lemma strip_domain_http: "strip_domain (''http://linkcurter.com/'' @ s) = s"
  by (simp add: strip_domain_def)

lemma strip_domain_short: "length s < 22 \<Longrightarrow> strip_domain s = s"
  by (auto simp: strip_domain_def dest: arg_cong[where f = length])

text \<open>
  C7. The claim is that the lookup answers the same for a short code and for that
  code after the domain, and that what is left is matched with \<open>short_link\<close> exactly
  and with regard to case. The controller hands the text to the database, which
  compares as its collation says: with one that ignores case, as the defaults of MySQL
  do, \<open>AAAA\<close> resolves to the link whose \<open>short_link\<close> is \<open>aaaa\<close>.
\<close>

theorem lookup_ignores_case:
  "links after_alice = [link_of_alice] \<and> short_link link_of_alice = ''aaaa'' \<and>
   ''AAAA'' \<noteq> ''aaaa'' \<and>
   fst (linksControllerOriginalLinkGet (sample_env zeros) ''AAAA'' after_alice) =
     Response 200 (OriginalLink page)"
  by (simp add: linksControllerOriginalLinkGet_def strip_domain_def store_defs sample_env_def
        after_alice_def link_of_alice_def ignoring_case_samples)

text \<open>
  C7, as amended. For a short code \<open>s\<close>, of four characters, the lookup answers the same
  for \<open>s\<close> and for \<open>s\<close> after the domain, with \<open>https\<close> or \<open>http\<close>, whatever the collation
  of the database: the domain is removed, and the answer is the original link of the
  first link whose \<open>short_link\<close> the database finds equal to \<open>s\<close>, or "Short link not
  found" with status 404 when there is none.
\<close>

theorem lookup_with_or_without_domain:
  assumes "length s = 4"
  shows "linksControllerOriginalLinkGet e (''https://linkcurter.com/'' @ s) w =
           linksControllerOriginalLinkGet e s w \<and>
         linksControllerOriginalLinkGet e (''http://linkcurter.com/'' @ s) w =
           linksControllerOriginalLinkGet e s w \<and>
         fst (linksControllerOriginalLinkGet e s w) =
           (case find (\<lambda>l. same_text e (short_link l) s) (links w) of
              None \<Rightarrow> Response 404 (Error ''Short link not found'')
            | Some l \<Rightarrow> Response 200 (OriginalLink (original_link l)))"
proof -
  have "strip_domain s = s"
    using assms by (simp add: strip_domain_short)
  then show ?thesis
    unfolding linksControllerOriginalLinkGet_def strip_domain_https strip_domain_http
    by (simp add: LinksModel_findOne_def record_query_def split: option.splits)
qed

theorem lookup_with_or_without_domain_witness:
  "fst (linksControllerOriginalLinkGet (sample_env zeros) ''https://linkcurter.com/aaaa''
      after_alice) = Response 200 (OriginalLink page) \<and>
   fst (linksControllerOriginalLinkGet (sample_env zeros) ''http://linkcurter.com/aaaa''
      after_alice) = Response 200 (OriginalLink page) \<and>
   fst (linksControllerOriginalLinkGet (sample_env zeros) ''aaaa'' after_alice) =
     Response 200 (OriginalLink page) \<and>
   fst (linksControllerOriginalLinkGet (sample_env zeros) ''https://linkcurter.com/bbbb''
      after_alice) = Response 404 (Error ''Short link not found'') \<and>
   fst (linksControllerOriginalLinkGet (sample_env zeros) ''bbbb'' after_alice) =
     Response 404 (Error ''Short link not found'')"
  using lookup_with_or_without_domain[of "''aaaa''" "sample_env zeros" after_alice]
    lookup_with_or_without_domain[of "''bbbb''" "sample_env zeros" after_alice]
  by (simp add: after_alice_def link_of_alice_def same_text_def sample_env_def
        ignoring_case_samples)

section \<open>The visits\<close>

lemma long_country:
  "length (replicate 51 CHR ''x'') = 51" "take 50 (replicate 51 CHR ''x'') = replicate 50 CHR ''x''"
  by simp_all

text \<open>
  C10. The claim is that every visit whose \<open>ip\<close> is no IPv4 address, with a user and
  a link that exist, is recorded with status 201, \<open>ip\<close> null and every other field as
  it was sent. A field that is longer than its column is not recorded as it was sent:
  for a country of 51 characters the database either refuses the row, and the answer
  is 500, or stores the first 50 characters.
\<close>

theorem visit_with_long_country:
  "\<not> isValidIp (req_ip long_visit_of_bob) \<and>
   fst (linkVisitedControllerCreate (sample_env zeros) long_visit_of_bob after_alice) =
     Response 500 (ErrorOf DataTooLong) \<and>
   fst (linkVisitedControllerCreate (shortening_env zeros) long_visit_of_bob after_alice) =
     Response 201 (VisitMessage
        \<lparr>id_links_visited = 1, visited_date = 0, so = Some ''Linux'',
         web_navigator = Some ''Firefox'', ip = None,
         country = Some (replicate 50 CHR ''x''), city = None,
         visited_id_user = 2, visited_id_links = 1\<rparr> ''New visited link created'')"
proof -
  have i: "\<not> isValidIp (Val ''999.1.1.1'')"
    by (simp add: isValidIp_def regex_defs)
  show ?thesis
    using i
    by (simp add: linkVisitedControllerCreate_def LinksVisitedModel_create_def
          UsersModel_findOne_def LinksModel_findOne_def record_query_def
          long_visit_of_bob_def visit_of_bob_def after_alice_def two_users_def init_def
          alice_def bob_def link_of_alice_def sample_env_def shortening_env_def long_country
          Let_def)
qed

text \<open>
  C10, as amended. A visit whose \<open>ip\<close> is no IPv4 address is recorded all the same, when
  the user and the link of the request exist and the other texts fit their columns
  (\<open>so\<close> and \<open>web_navigator\<close> 100 characters, \<open>country\<close> 50, \<open>city\<close> 100): the answer is
  201 and the row has \<open>ip\<close> null and every other field as it was sent.
\<close>

theorem visit_with_invalid_ip:
  assumes "req_id_user b = Val uid" and "uid \<noteq> 0"
    and "list_ex (\<lambda>u. id_user u = uid) (users w)"
    and "req_id_links b = Val lid" and "lid \<noteq> 0"
    and "list_ex (\<lambda>l. id_links l = lid) (links w)"
    and "\<not> isValidIp (req_ip b)"
    and "fits 100 (req_so b)" and "fits 100 (req_web_navigator b)"
    and "fits 50 (req_country b)" and "fits 100 (req_city b)"
  shows "linkVisitedControllerCreate e b w =
     (Response 201 (VisitMessage
        \<lparr>id_links_visited = next_id_links_visited w, visited_date = now e,
         so = column (req_so b), web_navigator = column (req_web_navigator b), ip = None,
         country = column (req_country b), city = column (req_city b),
         visited_id_user = uid, visited_id_links = lid\<rparr> ''New visited link created''),
      w\<lparr>links_visited := links_visited w @
          [\<lparr>id_links_visited = next_id_links_visited w, visited_date = now e,
            so = column (req_so b), web_navigator = column (req_web_navigator b), ip = None,
            country = column (req_country b), city = column (req_city b),
            visited_id_user = uid, visited_id_links = lid\<rparr>],
        next_id_links_visited := next_id_links_visited w + 1,
        queries := queries w @ [UsersFindOne (ByIdUser (Val uid)),
                                LinksFindOne (ByIdLinks (Val lid)),
                                LinksVisitedCreate uid lid]\<rparr>)"
proof -
  obtain u where u: "find (\<lambda>u. id_user u = uid) (users w) = Some u"
    using assms(3) by (cases "find (\<lambda>u. id_user u = uid) (users w)")
      (auto simp: find_None_iff list_ex_iff)
  obtain l where l: "find (\<lambda>l. id_links l = lid) (links w) = Some l"
    using assms(6) by (cases "find (\<lambda>l. id_links l = lid) (links w)")
      (auto simp: find_None_iff list_ex_iff)
  have s: "stored e n (column x) = Some (column x)" if "fits n x" for n x
    using that by (cases x) simp_all
  show ?thesis
    using assms(1-7) u l s[OF assms(8)] s[OF assms(9)] s[OF assms(10)] s[OF assms(11)]
    by (simp add: linkVisitedControllerCreate_def LinksVisitedModel_create_def
          UsersModel_findOne_def LinksModel_findOne_def record_query_def Let_def)
qed

theorem visit_with_invalid_ip_witness:
  "\<not> isValidIp (Val ''999.1.1.1'') \<and>
   fst (linkVisitedControllerCreate (sample_env zeros) visit_of_bob after_alice) =
     Response 201 (VisitMessage
        \<lparr>id_links_visited = 1, visited_date = 0, so = Some ''Linux'',
         web_navigator = Some ''Firefox'', ip = None, country = Some ''Spain'', city = None,
         visited_id_user = 2, visited_id_links = 1\<rparr> ''New visited link created'')"
proof -
  have i: "\<not> isValidIp (Val ''999.1.1.1'')"
    by (simp add: isValidIp_def regex_defs)
  show ?thesis
    using i visit_with_invalid_ip[of visit_of_bob 2 after_alice 1 "sample_env zeros"]
    by (simp add: visit_of_bob_def after_alice_def two_users_def init_def alice_def bob_def
          link_of_alice_def sample_env_def)
qed

end
